theory Spec2Isabelle
  imports Complex_Main
begin

section \<open>Arm4DOF.py: a planar arm of four segments\<close>

text \<open>
  The module is embedded over the real numbers: a Python or NumPy float is a \<open>real\<close>,
  \<open>np.cos\<close>, \<open>np.sin\<close> and \<open>np.sqrt\<close> are the real functions, and rounding is not
  modelled. A Python list and a NumPy vector are both a \<open>real list\<close>. An index out of
  range raises \<open>IndexError\<close>, the only exception the module's own code can raise on such
  lists.
\<close>

subsection \<open>Exceptions and indexing\<close>

datatype error = IndexError

type_synonym 'a result = "error + 'a"

text \<open>\<open>xs[i]\<close> for a literal index \<open>i \<ge> 0\<close>.\<close>

definition getitem :: "'a list \<Rightarrow> nat \<Rightarrow> 'a result" where
  "getitem xs i = (if i < length xs then Inr (xs ! i) else Inl IndexError)"

fun bindE :: "'a result \<Rightarrow> ('a \<Rightarrow> 'b result) \<Rightarrow> 'b result" where
  "bindE (Inl e) f = Inl e"
| "bindE (Inr v) f = f v"

text \<open>A binary operator on two subexpressions, evaluated left to right.\<close>

definition lift2 :: "('a \<Rightarrow> 'b \<Rightarrow> 'c) \<Rightarrow> 'a result \<Rightarrow> 'b result \<Rightarrow> 'c result" where
  "lift2 f a b = bindE a (\<lambda>x. bindE b (\<lambda>y. Inr (f x y)))"

definition addE :: "real result \<Rightarrow> real result \<Rightarrow> real result" where
  "addE = lift2 (+)"

definition subE :: "real result \<Rightarrow> real result \<Rightarrow> real result" where
  "subE = lift2 (-)"

definition mulE :: "real result \<Rightarrow> real result \<Rightarrow> real result" where
  "mulE = lift2 (*)"

definition np_cos :: "real result \<Rightarrow> real result" where
  "np_cos a = bindE a (\<lambda>x. Inr (cos x))"

definition np_sin :: "real result \<Rightarrow> real result" where
  "np_sin a = bindE a (\<lambda>x. Inr (sin x))"

text \<open>\<open>np.sum\<close> of a vector: the sum of all its elements, whatever its length.\<close>

definition np_sum :: "real list \<Rightarrow> real result" where
  "np_sum xs = Inr (sum_list xs)"

subsection \<open>The class \<open>Arm3Link\<close>\<close>

record Arm3Link =
  q :: "real list"
  q0 :: "real list"
  L :: "real list"
  max_angles :: "real list"
  min_angles :: "real list"

text \<open>
  \<open>__init__(self, q=None, q0=None, L=None)\<close>: each argument is stored as given, or
  replaced by its default when it is \<open>None\<close>. The body has no check and no \<open>raise\<close>.
\<close>

definition Arm3Link_init ::
  "real list option \<Rightarrow> real list option \<Rightarrow> real list option \<Rightarrow> Arm3Link result" where
  "Arm3Link_init q_arg q0_arg L_arg =
     Inr \<lparr> q = (case q_arg of None \<Rightarrow> [pi / 4, pi / 4, 0, 0] | Some v \<Rightarrow> v),
           q0 = (case q0_arg of None \<Rightarrow> [pi / 4, pi / 4, 0, 0] | Some v \<Rightarrow> v),
           L = (case L_arg of None \<Rightarrow> [1, 1, 1, 1] | Some v \<Rightarrow> v),
           max_angles = [pi, pi, pi, pi],
           min_angles = [0, 0, - pi, - pi] \<rparr>"

text \<open>\<open>get_xy(self, q=None)\<close>: the hand position \<open>[x, y]\<close>.\<close>

definition get_xy :: "Arm3Link \<Rightarrow> real list option \<Rightarrow> real list result" where
  "get_xy self q_arg =
     (let qv = (case q_arg of None \<Rightarrow> q self | Some v \<Rightarrow> v);
          x = addE (addE (addE
                (mulE (getitem (L self) 0) (np_cos (getitem qv 0)))
                (mulE (getitem (L self) 1) (np_cos (addE (getitem qv 0) (getitem qv 1)))))
                (mulE (getitem (L self) 2)
                   (np_cos (addE (addE (getitem qv 0) (getitem qv 1)) (getitem qv 2)))))
                (mulE (getitem (L self) 3) (np_cos (np_sum qv)));
          y = addE (addE (addE
                (mulE (getitem (L self) 0) (np_sin (getitem qv 0)))
                (mulE (getitem (L self) 1) (np_sin (addE (getitem qv 0) (getitem qv 1)))))
                (mulE (getitem (L self) 2)
                   (np_sin (addE (addE (getitem qv 0) (getitem qv 1)) (getitem qv 2)))))
                (mulE (getitem (L self) 3) (np_sin (np_sum qv)))
      in bindE x (\<lambda>xv. bindE y (\<lambda>yv. Inr [xv, yv])))"

subsection \<open>The closures of \<open>inv_kin\<close>\<close>

text \<open>The local list \<open>weight\<close> of \<open>distance_to_default\<close>.\<close>

definition weight :: "real list" where
  "weight = [1, 1, 13 / 10, 1]"

text \<open>
  \<open>distance_to_default(q, *args)\<close>: the extra arguments are accepted and ignored.
  \<open>zip\<close> of three sequences stops at the shortest.
\<close>

definition distance_to_default :: "Arm3Link \<Rightarrow> real list \<Rightarrow> real list list \<Rightarrow> real" where
  "distance_to_default self qv args =
     sqrt (sum_list (map (\<lambda>(qi, q0i, wi). (qi - q0i)\<^sup>2 * wi)
                         (zip qv (zip (q0 self) weight))))"

text \<open>\<open>x_constraint(q, xy)\<close> and \<open>y_constraint(q, xy)\<close> recompute the position inline.\<close>

definition x_constraint :: "Arm3Link \<Rightarrow> real list \<Rightarrow> real list \<Rightarrow> real result" where
  "x_constraint self qv xy =
     subE (addE (addE (addE
             (mulE (getitem (L self) 0) (np_cos (getitem qv 0)))
             (mulE (getitem (L self) 1) (np_cos (addE (getitem qv 0) (getitem qv 1)))))
             (mulE (getitem (L self) 2)
                (np_cos (addE (addE (getitem qv 0) (getitem qv 1)) (getitem qv 2)))))
             (mulE (getitem (L self) 3) (np_cos (np_sum qv))))
          (getitem xy 0)"

definition y_constraint :: "Arm3Link \<Rightarrow> real list \<Rightarrow> real list \<Rightarrow> real result" where
  "y_constraint self qv xy =
     subE (addE (addE (addE
             (mulE (getitem (L self) 0) (np_sin (getitem qv 0)))
             (mulE (getitem (L self) 1) (np_sin (addE (getitem qv 0) (getitem qv 1)))))
             (mulE (getitem (L self) 2)
                (np_sin (addE (addE (getitem qv 0) (getitem qv 1)) (getitem qv 2)))))
             (mulE (getitem (L self) 3) (np_sin (np_sum qv))))
          (getitem xy 1)"

subsection \<open>The call of the optimizer\<close>

text \<open>
  \<open>scipy.optimize.fmin_slsqp\<close> is a library outside the module. Its call is a record of
  the keyword arguments: the five that \<open>inv_kin\<close> passes, and, as options, the ones for
  inequality constraints, bounds, the iteration cap and the accuracy, where \<open>None\<close> says
  that the keyword is not passed and the library's default applies. The optimizer itself
  is a parameter of \<open>inv_kin\<close>: a function from the call to the vector returned (or the
  exception that a callback raised).
\<close>

record slsqp_call =
  func :: "real list \<Rightarrow> real list list \<Rightarrow> real"
  x0 :: "real list"
  eqcons :: "(real list \<Rightarrow> real list \<Rightarrow> real result) list"
  args :: "real list list"
  iprint :: int
  ieqcons_kw :: "(real list \<Rightarrow> real list \<Rightarrow> real result) list option"
  f_ieqcons_kw :: "(real list \<Rightarrow> real list \<Rightarrow> real list result) option"
  bounds_kw :: "(real \<times> real) list option"
  iter_kw :: "nat option"
  acc_kw :: "real option"

type_synonym optimizer = "slsqp_call \<Rightarrow> real list result"

definition inv_kin_call :: "Arm3Link \<Rightarrow> real list \<Rightarrow> slsqp_call" where
  "inv_kin_call self xy =
     \<lparr> func = distance_to_default self,
       x0 = q self,
       eqcons = [x_constraint self, y_constraint self],
       args = [xy],
       iprint = 0,
       ieqcons_kw = None,
       f_ieqcons_kw = None,
       bounds_kw = None,
       iter_kw = None,
       acc_kw = None \<rparr>"

text \<open>
  \<open>inv_kin(self, xy)\<close> in state-passing style: the value returned, and the object
  \<open>self\<close> as the method leaves it. The body assigns to no attribute.
\<close>

definition inv_kin :: "optimizer \<Rightarrow> Arm3Link \<Rightarrow> real list \<Rightarrow> real list result \<times> Arm3Link" where
  "inv_kin fmin_slsqp self xy = (fmin_slsqp (inv_kin_call self xy), self)"

text \<open>\<open>findJointPos(x, y)\<close>.\<close>

definition findJointPos :: "optimizer \<Rightarrow> real \<Rightarrow> real \<Rightarrow> real list result" where
  "findJointPos fmin_slsqp x y =
     bindE (Arm3Link_init None None None) (\<lambda>arm. fst (inv_kin fmin_slsqp arm [x, y]))"

section \<open>Properties\<close>

subsection \<open>Auxiliary facts\<close>

lemma error_unique: "(e :: error) = IndexError"
  by (cases e) simp

lemma length_four_conv: "length xs = 4 \<longleftrightarrow> (\<exists>a b c d. xs = [a, b, c, d])"
  by (auto simp: eval_nat_numeral length_Suc_conv)

lemma four_le_length_conv:
  "4 \<le> length xs \<longleftrightarrow> (\<exists>a b c d rest. xs = a # b # c # d # rest)"
  by (auto simp: eval_nat_numeral Suc_le_length_iff)

lemma getitem_four:
  "getitem (a # b # c # d # rest) 0 = Inr a"
  "getitem (a # b # c # d # rest) (Suc 0) = Inr b"
  "getitem (a # b # c # d # rest) 2 = Inr c"
  "getitem (a # b # c # d # rest) 3 = Inr d"
  by (simp_all add: getitem_def)

lemma sum_below_four:
  fixes f :: "nat \<Rightarrow> real"
  shows "(\<Sum>i<4. f i) = f 0 + f 1 + f 2 + f 3"
  by (simp add: eval_nat_numeral)

lemma sum_upto_cases:
  fixes g :: "nat \<Rightarrow> real"
  shows "(\<Sum>j\<le>0. g j) = g 0"
    and "(\<Sum>j\<le>1. g j) = g 0 + g 1"
    and "(\<Sum>j\<le>2. g j) = g 0 + g 1 + g 2"
    and "(\<Sum>j\<le>3. g j) = g 0 + g 1 + g 2 + g 3"
  by (simp_all add: eval_nat_numeral)

lemma shift_out:
  fixes x y :: real
  shows "x + 2 * pi + y = x + y + 2 * pi"
    and "x + (y + 2 * pi) = x + y + 2 * pi"
  by simp_all

lemma sum_list_map_zero:
  fixes f :: "'a \<Rightarrow> real"
  shows "(\<And>x. x \<in> set xs \<Longrightarrow> f x = 0) \<Longrightarrow> sum_list (map f xs) = 0"
  by (induction xs) auto

lemma zip_self_eq: "(a, b, w) \<in> set (zip xs (zip xs ws)) \<Longrightarrow> a = b"
  by (auto simp: in_set_zip)

lemma distance_at_rest: "distance_to_default self (q0 self) extra = 0"
proof -
  have "sum_list (map (\<lambda>(qi, q0i, wi). (qi - q0i)\<^sup>2 * wi)
                      (zip (q0 self) (zip (q0 self) weight))) = 0"
    by (rule sum_list_map_zero) (auto dest: zip_self_eq)
  then show ?thesis
    by (simp only: distance_to_default_def real_sqrt_zero)
qed

lemma objective_weighted_distance:
  assumes "length qv = 4" and "4 \<le> length (q0 self)"
  shows "distance_to_default self qv extra =
           sqrt (\<Sum>i<4. [1, 1, 13 / 10, 1] ! i * (qv ! i - q0 self ! i)\<^sup>2)"
proof -
  from assms(1) obtain a b c d where qv: "qv = [a, b, c, d]"
    by (auto simp: length_four_conv)
  from assms(2) obtain r0 r1 r2 r3 rest where rs: "q0 self = r0 # r1 # r2 # r3 # rest"
    by (auto simp: four_le_length_conv)
  show ?thesis
    by (simp add: distance_to_default_def weight_def qv rs sum_below_four algebra_simps)
qed

subsection \<open>Forward kinematics\<close>

text \<open>
  C1. For a vector \<open>qv\<close> of four joint angles and an arm with four segment lengths,
  \<open>get_xy\<close> returns the pair whose first component is the sum over the four segments of
  the length times the cosine of the cumulative angle, and whose second component is the
  same sum with the sine, the cumulative angle of segment \<open>i\<close> being the sum of the joint
  angles \<open>0..i\<close>. (Segment lengths beyond the fourth, if any, are never read.)
\<close>

theorem get_xy_formula:
  assumes "length qv = 4" and "4 \<le> length (L self)"
  shows "get_xy self (Some qv) =
           Inr [(\<Sum>i<4. L self ! i * cos (\<Sum>j\<le>i. qv ! j)),
                (\<Sum>i<4. L self ! i * sin (\<Sum>j\<le>i. qv ! j))]"
proof -
  from assms(1) obtain a b c d where qv: "qv = [a, b, c, d]"
    by (auto simp: length_four_conv)
  from assms(2) obtain l0 l1 l2 l3 rest where ls: "L self = l0 # l1 # l2 # l3 # rest"
    by (auto simp: four_le_length_conv)
  show ?thesis
    by (simp add: get_xy_def qv ls getitem_def lift2_def addE_def mulE_def np_cos_def
        np_sin_def np_sum_def sum_below_four sum_upto_cases add.assoc)
qed

theorem get_xy_formula_witness:
  "length [pi / 2, 0, 0, 0 :: real] = 4 \<and>
   4 \<le> length (L \<lparr>q = [0, 0, 0, 0], q0 = [0, 0, 0, 0], L = [1, 2, 3, 4],
                   max_angles = [], min_angles = []\<rparr>) \<and>
   get_xy \<lparr>q = [0, 0, 0, 0], q0 = [0, 0, 0, 0], L = [1, 2, 3, 4],
           max_angles = [], min_angles = []\<rparr> (Some [pi / 2, 0, 0, 0]) = Inr [0, 10]"
  using get_xy_formula [of "[pi / 2, 0, 0, 0]"
      "\<lparr>q = [0, 0, 0, 0], q0 = [0, 0, 0, 0], L = [1, 2, 3, 4],
        max_angles = [], min_angles = []\<rparr>"]
  by (simp add: sum_below_four sum_upto_cases)

text \<open>
  C9. For a vector \<open>qv\<close> of four joint angles and an index \<open>i\<close> among \<open>0, 1, 2, 3\<close>,
  adding \<open>2 * pi\<close> to component \<open>i\<close> does not change the outcome of \<open>get_xy\<close>.
\<close>

theorem get_xy_periodic:
  assumes "length qv = 4" and "i < 4"
  shows "get_xy self (Some (qv[i := qv ! i + 2 * pi])) = get_xy self (Some qv)"
proof -
  from assms(1) obtain a b c d where qv: "qv = [a, b, c, d]"
    by (auto simp: length_four_conv)
  from assms(2) consider "i = 0" | "i = 1" | "i = 2" | "i = 3"
    by linarith
  then show ?thesis
  proof cases
    case 1
    then show ?thesis
      by (simp add: get_xy_def qv np_sum_def getitem_four np_cos_def np_sin_def addE_def
          lift2_def Let_def shift_out)
  next
    case 2
    then show ?thesis
      by (simp add: get_xy_def qv np_sum_def getitem_four np_cos_def np_sin_def addE_def
          lift2_def Let_def shift_out)
  next
    case 3
    then show ?thesis
      by (simp add: get_xy_def qv np_sum_def getitem_four np_cos_def np_sin_def addE_def
          lift2_def Let_def shift_out)
  next
    case 4
    then show ?thesis
      by (simp add: get_xy_def qv np_sum_def getitem_four np_cos_def np_sin_def addE_def
          lift2_def Let_def shift_out)
  qed
qed

theorem get_xy_periodic_witness:
  "length [0, 0, 0, 0 :: real] = 4 \<and> (2 :: nat) < 4 \<and>
   get_xy \<lparr>q = [0, 0, 0, 0], q0 = [0, 0, 0, 0], L = [1, 1, 1, 1],
           max_angles = [], min_angles = []\<rparr> (Some [0, 0, 2 * pi, 0]) =
   get_xy \<lparr>q = [0, 0, 0, 0], q0 = [0, 0, 0, 0], L = [1, 1, 1, 1],
           max_angles = [], min_angles = []\<rparr> (Some [0, 0, 0, 0]) \<and>
   get_xy \<lparr>q = [0, 0, 0, 0], q0 = [0, 0, 0, 0], L = [1, 1, 1, 1],
           max_angles = [], min_angles = []\<rparr> (Some [0, 0, 0, 0]) = Inr [4, 0]"
  using get_xy_periodic [of "[0, 0, 0, 0]" 2
      "\<lparr>q = [0, 0, 0, 0], q0 = [0, 0, 0, 0], L = [1, 1, 1, 1],
        max_angles = [], min_angles = []\<rparr>"]
  by (simp add: get_xy_def getitem_def lift2_def addE_def mulE_def np_cos_def np_sin_def
      np_sum_def)

subsection \<open>The objective and the constraints\<close>

text \<open>
  C2. For a vector \<open>qv\<close> of four joint angles (and a rest pose of at least four
  elements, so that every \<open>rest_pose[i]\<close> exists), \<open>distance_to_default\<close> is the square
  root of the sum over the four joints of the weight times the squared difference to the
  rest pose, with the weights \<open>1, 1, 1.3, 1\<close>.
\<close>

theorem distance_to_default_formula:
  assumes "length qv = 4" and "4 \<le> length (q0 self)"
  shows "distance_to_default self qv extra =
           sqrt (\<Sum>i<4. [1, 1, 13 / 10, 1] ! i * (qv ! i - q0 self ! i)\<^sup>2)"
proof -
  from assms(1) obtain a b c d where qv: "qv = [a, b, c, d]"
    by (auto simp: length_four_conv)
  from assms(2) obtain r0 r1 r2 r3 rest where rs: "q0 self = r0 # r1 # r2 # r3 # rest"
    by (auto simp: four_le_length_conv)
  show ?thesis
    by (simp add: distance_to_default_def weight_def qv rs sum_below_four algebra_simps)
qed

theorem distance_to_default_formula_witness:
  "length [1, 0, 2, 0 :: real] = 4 \<and>
   4 \<le> length (q0 \<lparr>q = [0, 0, 0, 0], q0 = [0, 0, 0, 0], L = [1, 1, 1, 1],
                    max_angles = [], min_angles = []\<rparr>) \<and>
   distance_to_default \<lparr>q = [0, 0, 0, 0], q0 = [0, 0, 0, 0], L = [1, 1, 1, 1],
                        max_angles = [], min_angles = []\<rparr> [1, 0, 2, 0] [[0, 4]] =
     sqrt (1 + 13 / 10 * 4)"
  using distance_to_default_formula [of "[1, 0, 2, 0]"
      "\<lparr>q = [0, 0, 0, 0], q0 = [0, 0, 0, 0], L = [1, 1, 1, 1],
        max_angles = [], min_angles = []\<rparr>" "[[0, 4]]"]
  by (simp add: sum_below_four)

text \<open>
  C3. The two equality constraints are the residuals of the forward kinematics:
  \<open>x_constraint(q, xy)\<close> has the outcome of \<open>get_xy(q)[0] - xy[0]\<close> and
  \<open>y_constraint(q, xy)\<close> that of \<open>get_xy(q)[1] - xy[1]\<close>, for every \<open>q\<close> and \<open>xy\<close>
  (the same value, or the same exception when a sequence is too short).
\<close>

theorem constraints_are_residuals:
  "x_constraint self qv xy =
     subE (bindE (get_xy self (Some qv)) (\<lambda>p. getitem p 0)) (getitem xy 0) \<and>
   y_constraint self qv xy =
     subE (bindE (get_xy self (Some qv)) (\<lambda>p. getitem p 1)) (getitem xy 1)"
  by (auto simp: x_constraint_def y_constraint_def get_xy_def getitem_def lift2_def
      addE_def mulE_def subE_def np_cos_def np_sin_def np_sum_def Let_def error_unique)

theorem constraints_are_residuals_witness:
  "get_xy \<lparr>q = [0, 0, 0, 0], q0 = [0, 0, 0, 0], L = [1, 2, 3, 4],
           max_angles = [], min_angles = []\<rparr> (Some [pi / 2, 0, 0, 0]) = Inr [0, 10] \<and>
   x_constraint \<lparr>q = [0, 0, 0, 0], q0 = [0, 0, 0, 0], L = [1, 2, 3, 4],
                 max_angles = [], min_angles = []\<rparr> [pi / 2, 0, 0, 0] [1, 4] = Inr (- 1) \<and>
   y_constraint \<lparr>q = [0, 0, 0, 0], q0 = [0, 0, 0, 0], L = [1, 2, 3, 4],
                 max_angles = [], min_angles = []\<rparr> [pi / 2, 0, 0, 0] [1, 4] = Inr 6"
  using constraints_are_residuals [of
      "\<lparr>q = [0, 0, 0, 0], q0 = [0, 0, 0, 0], L = [1, 2, 3, 4],
        max_angles = [], min_angles = []\<rparr>" "[pi / 2, 0, 0, 0]" "[1, 4]"]
  by (simp add: get_xy_def getitem_def lift2_def addE_def mulE_def subE_def np_cos_def
      np_sin_def np_sum_def)

subsection \<open>The solve\<close>

text \<open>
  C4. \<open>inv_kin\<close> returns what the optimizer returns on a call whose initial guess
  \<open>x0\<close> is the current pose \<open>q\<close> of the arm, whatever the rest pose \<open>q0\<close> is, and
  whose objective is \<open>distance_to_default\<close>: at every vector \<open>qv\<close> of four joint angles
  (the rest pose having its four elements) the objective is the square root of the
  weighted sum of the squared differences between \<open>qv\<close> and the rest pose \<open>q0\<close>; it
  does not depend on the current pose and is zero at the rest pose.
\<close>

theorem inv_kin_starts_at_current_pose:
  "fst (inv_kin fmin_slsqp self xy) = fmin_slsqp (inv_kin_call self xy) \<and>
   x0 (inv_kin_call self xy) = q self \<and>
   x0 (inv_kin_call (self\<lparr>q0 := r\<rparr>) xy) = q self \<and>
   func (inv_kin_call self xy) = distance_to_default self \<and>
   (length qv = 4 \<and> 4 \<le> length (q0 self) \<longrightarrow>
      func (inv_kin_call self xy) qv extra =
        sqrt (\<Sum>i<4. [1, 1, 13 / 10, 1] ! i * (qv ! i - q0 self ! i)\<^sup>2)) \<and>
   distance_to_default (self\<lparr>q := p\<rparr>) = distance_to_default self \<and>
   distance_to_default self (q0 self) extra = 0"
proof -
  have call: "func (inv_kin_call self xy) = distance_to_default self"
    by (simp add: inv_kin_call_def)
  have start: "x0 (inv_kin_call self xy) = q self"
    "x0 (inv_kin_call (self\<lparr>q0 := r\<rparr>) xy) = q self"
    by (simp_all add: inv_kin_call_def)
  have ret: "fst (inv_kin fmin_slsqp self xy) = fmin_slsqp (inv_kin_call self xy)"
    by (simp add: inv_kin_def)
  have indep: "distance_to_default (self\<lparr>q := p\<rparr>) = distance_to_default self"
    by (simp add: distance_to_default_def fun_eq_iff)
  have formula: "length qv = 4 \<and> 4 \<le> length (q0 self) \<longrightarrow>
      func (inv_kin_call self xy) qv extra =
        sqrt (\<Sum>i<4. [1, 1, 13 / 10, 1] ! i * (qv ! i - q0 self ! i)\<^sup>2)"
    using objective_weighted_distance [of qv self extra] by (simp only: call) blast
  from ret start call formula indep distance_at_rest [of self extra]
  show ?thesis by blast
qed

theorem inv_kin_starts_at_current_pose_witness:
  "length [1, 1, 3, 1 :: real] = 4 \<and>
   4 \<le> length (q0 \<lparr>q = [0, 0, 0, 0], q0 = [1, 1, 1, 1], L = [1, 1, 1, 1],
        max_angles = [pi, pi, pi, pi], min_angles = [0, 0, - pi, - pi]\<rparr>) \<and>
   q \<lparr>q = [0, 0, 0, 0], q0 = [1, 1, 1, 1], L = [1, 1, 1, 1],
        max_angles = [pi, pi, pi, pi], min_angles = [0, 0, - pi, - pi]\<rparr> \<noteq>
   q0 \<lparr>q = [0, 0, 0, 0], q0 = [1, 1, 1, 1], L = [1, 1, 1, 1],
        max_angles = [pi, pi, pi, pi], min_angles = [0, 0, - pi, - pi]\<rparr> \<and>
   x0 (inv_kin_call \<lparr>q = [0, 0, 0, 0], q0 = [1, 1, 1, 1], L = [1, 1, 1, 1],
        max_angles = [pi, pi, pi, pi], min_angles = [0, 0, - pi, - pi]\<rparr> [0, 4]) = [0, 0, 0, 0] \<and>
   func (inv_kin_call \<lparr>q = [0, 0, 0, 0], q0 = [1, 1, 1, 1], L = [1, 1, 1, 1],
        max_angles = [pi, pi, pi, pi], min_angles = [0, 0, - pi, - pi]\<rparr> [0, 4]) [1, 1, 3, 1] [[0, 4]] = sqrt (13 / 10 * 4)"
  using inv_kin_starts_at_current_pose [where self = "\<lparr>q = [0, 0, 0, 0], q0 = [1, 1, 1, 1], L = [1, 1, 1, 1],
        max_angles = [pi, pi, pi, pi], min_angles = [0, 0, - pi, - pi]\<rparr>"
      and xy = "[0, 4]" and qv = "[1, 1, 3, 1]" and extra = "[[0, 4]]"
      and fmin_slsqp = "\<lambda>c. Inr (x0 c)" and r = "[]" and p = "[]"]
  by (simp add: sum_below_four inv_kin_call_def)

text \<open>
  C6, as the specification states it: the caller can override the optimizer's
  convergence tolerance and iteration cap. It fails: no arm and no target make
  \<open>inv_kin\<close> pass either keyword.
\<close>

theorem inv_kin_override_counterexample:
  "\<not> (\<exists>self xy. \<not> (iter_kw (inv_kin_call self xy) = None \<and>
                      acc_kw (inv_kin_call self xy) = None))"
  by (simp add: inv_kin_call_def)

text \<open>
  C6, amended. \<open>inv_kin\<close> returns what the optimizer returns on a call that passes
  neither an iteration cap nor an accuracy, for every arm and every target: the
  optimizer's defaults always apply.
\<close>

theorem inv_kin_uses_optimizer_defaults:
  "fst (inv_kin fmin_slsqp self xy) = fmin_slsqp (inv_kin_call self xy) \<and>
   iter_kw (inv_kin_call self xy) = None \<and>
   acc_kw (inv_kin_call self xy) = None"
  by (simp add: inv_kin_call_def inv_kin_def)

text \<open>
  C8. Two arms with the same segment lengths, rest pose and current pose, whatever
  their joint limits, give the optimizer the same call, so \<open>inv_kin\<close> returns the same
  result for every target; the call carries no inequality constraint and no bound.
\<close>

theorem joint_limits_unused:
  assumes "L a = L b" and "q0 a = q0 b" and "q a = q b"
  shows "fst (inv_kin fmin_slsqp a xy) = fst (inv_kin fmin_slsqp b xy) \<and>
         inv_kin_call a xy = inv_kin_call b xy \<and>
         ieqcons_kw (inv_kin_call a xy) = None \<and>
         f_ieqcons_kw (inv_kin_call a xy) = None \<and>
         bounds_kw (inv_kin_call a xy) = None"
proof -
  have "distance_to_default a = distance_to_default b"
    using assms(2) by (simp add: distance_to_default_def fun_eq_iff)
  moreover have "x_constraint a = x_constraint b"
    using assms(1) by (simp add: x_constraint_def fun_eq_iff)
  moreover have "y_constraint a = y_constraint b"
    using assms(1) by (simp add: y_constraint_def fun_eq_iff)
  ultimately have "inv_kin_call a xy = inv_kin_call b xy"
    using assms(3) by (simp add: inv_kin_call_def)
  then show ?thesis
    by (simp add: inv_kin_def) (simp add: inv_kin_call_def)
qed

theorem joint_limits_unused_witness:
  "L \<lparr>q = [0, 0, 0, 0], q0 = [1, 1, 1, 1], L = [1, 2, 3, 4],
        max_angles = [pi, pi, pi, pi], min_angles = [0, 0, - pi, - pi]\<rparr> =
   L \<lparr>q = [0, 0, 0, 0], q0 = [1, 1, 1, 1], L = [1, 2, 3, 4],
        max_angles = [0, 0, 0, 0], min_angles = [0, 0, 0, 0]\<rparr> \<and>
   q0 \<lparr>q = [0, 0, 0, 0], q0 = [1, 1, 1, 1], L = [1, 2, 3, 4],
        max_angles = [pi, pi, pi, pi], min_angles = [0, 0, - pi, - pi]\<rparr> =
   q0 \<lparr>q = [0, 0, 0, 0], q0 = [1, 1, 1, 1], L = [1, 2, 3, 4],
        max_angles = [0, 0, 0, 0], min_angles = [0, 0, 0, 0]\<rparr> \<and>
   q \<lparr>q = [0, 0, 0, 0], q0 = [1, 1, 1, 1], L = [1, 2, 3, 4],
        max_angles = [pi, pi, pi, pi], min_angles = [0, 0, - pi, - pi]\<rparr> =
   q \<lparr>q = [0, 0, 0, 0], q0 = [1, 1, 1, 1], L = [1, 2, 3, 4],
        max_angles = [0, 0, 0, 0], min_angles = [0, 0, 0, 0]\<rparr> \<and>
   max_angles \<lparr>q = [0, 0, 0, 0], q0 = [1, 1, 1, 1], L = [1, 2, 3, 4],
        max_angles = [pi, pi, pi, pi], min_angles = [0, 0, - pi, - pi]\<rparr> \<noteq>
   max_angles \<lparr>q = [0, 0, 0, 0], q0 = [1, 1, 1, 1], L = [1, 2, 3, 4],
        max_angles = [0, 0, 0, 0], min_angles = [0, 0, 0, 0]\<rparr> \<and>
   fst (inv_kin (\<lambda>c. Inr (x0 c)) \<lparr>q = [0, 0, 0, 0], q0 = [1, 1, 1, 1], L = [1, 2, 3, 4],
        max_angles = [pi, pi, pi, pi], min_angles = [0, 0, - pi, - pi]\<rparr> [0, 4]) =
   fst (inv_kin (\<lambda>c. Inr (x0 c)) \<lparr>q = [0, 0, 0, 0], q0 = [1, 1, 1, 1], L = [1, 2, 3, 4],
        max_angles = [0, 0, 0, 0], min_angles = [0, 0, 0, 0]\<rparr> [0, 4])"
  using joint_limits_unused [of
      "\<lparr>q = [0, 0, 0, 0], q0 = [1, 1, 1, 1], L = [1, 2, 3, 4],
        max_angles = [pi, pi, pi, pi], min_angles = [0, 0, - pi, - pi]\<rparr>"
      "\<lparr>q = [0, 0, 0, 0], q0 = [1, 1, 1, 1], L = [1, 2, 3, 4],
        max_angles = [0, 0, 0, 0], min_angles = [0, 0, 0, 0]\<rparr>"
      "\<lambda>c. Inr (x0 c)" "[0, 4]"]
  by simp

text \<open>
  C10. \<open>inv_kin\<close> leaves the arm as it was: the object after the call is the object
  before it, field by field, whatever the optimizer returns.
\<close>

theorem inv_kin_frame:
  "snd (inv_kin fmin_slsqp self xy) = self \<and>
   q (snd (inv_kin fmin_slsqp self xy)) = q self \<and>
   q0 (snd (inv_kin fmin_slsqp self xy)) = q0 self \<and>
   L (snd (inv_kin fmin_slsqp self xy)) = L self \<and>
   max_angles (snd (inv_kin fmin_slsqp self xy)) = max_angles self \<and>
   min_angles (snd (inv_kin fmin_slsqp self xy)) = min_angles self"
  by (simp add: inv_kin_def)

subsection \<open>Construction and the entry point\<close>

text \<open>
  C5, as the specification states it: a configuration sequence whose length is not 4
  makes the construction fail. It fails: a current pose of three angles is accepted and
  stored.
\<close>

theorem init_length_check_counterexample:
  "length [pi / 4, pi / 4, 0 :: real] \<noteq> 4 \<and>
   Arm3Link_init (Some [pi / 4, pi / 4, 0]) None None =
     Inr \<lparr>q = [pi / 4, pi / 4, 0], q0 = [pi / 4, pi / 4, 0, 0], L = [1, 1, 1, 1],
          max_angles = [pi, pi, pi, pi], min_angles = [0, 0, - pi, - pi]\<rparr>"
  by (simp add: Arm3Link_init_def)

text \<open>
  C5, amended. The construction never fails and checks no length: for arguments of any
  length it returns an arm that stores each sequence given as it is, and the default
  where none is given.
\<close>

theorem init_never_fails:
  "\<exists>arm. Arm3Link_init q_arg q0_arg L_arg = Inr arm \<and>
     q arm = (case q_arg of None \<Rightarrow> [pi / 4, pi / 4, 0, 0] | Some v \<Rightarrow> v) \<and>
     q0 arm = (case q0_arg of None \<Rightarrow> [pi / 4, pi / 4, 0, 0] | Some v \<Rightarrow> v) \<and>
     L arm = (case L_arg of None \<Rightarrow> [1, 1, 1, 1] | Some v \<Rightarrow> v)"
  by (simp add: Arm3Link_init_def)

text \<open>
  C7. \<open>findJointPos(x, y)\<close> builds the default arm, with unit segment lengths and
  the current pose and the rest pose both \<open>[pi/4, pi/4, 0, 0]\<close>, and returns what
  \<open>inv_kin\<close> returns on that arm for the target \<open>[x, y]\<close>.
\<close>

theorem findJointPos_default_arm:
  "Arm3Link_init None None None =
     Inr \<lparr>q = [pi / 4, pi / 4, 0, 0], q0 = [pi / 4, pi / 4, 0, 0], L = [1, 1, 1, 1],
          max_angles = [pi, pi, pi, pi], min_angles = [0, 0, - pi, - pi]\<rparr> \<and>
   findJointPos fmin_slsqp x y =
     fst (inv_kin fmin_slsqp
          \<lparr>q = [pi / 4, pi / 4, 0, 0], q0 = [pi / 4, pi / 4, 0, 0], L = [1, 1, 1, 1],
          max_angles = [pi, pi, pi, pi], min_angles = [0, 0, - pi, - pi]\<rparr> [x, y])"
  by (simp add: findJointPos_def Arm3Link_init_def)

end
